theory Spec2Isabelle
  imports Main
begin

section \<open>Data model of \<open>lib/shopify/index.ts\<close>\<close>

text \<open>
  Strings are \<open>string\<close> (lists of 8-bit characters, read as code units).  Cart
  quantities are JavaScript numbers that hold integers; they are modelled as \<open>int\<close>.
  An optional field (\<open>T | undefined\<close>) is an \<open>option\<close>.
\<close>

record Money =
  amount :: string
  currencyCode :: string

record Image =
  url :: string
  altText :: "string option"
  width :: nat
  height :: nat

record SelectedOption =
  so_name :: string
  so_value :: string

subsection \<open>Carts\<close>

record CartProduct =
  cp_id :: string
  cp_handle :: string
  cp_title :: string
  cp_featuredImage :: Image

record Merchandise =
  m_id :: string
  m_title :: string
  m_selectedOptions :: "SelectedOption list"
  m_product :: CartProduct

record LineCost =
  line_totalAmount :: Money

record CartItem =
  line_id :: string
  quantity :: int
  line_cost :: LineCost
  merchandise :: Merchandise

text \<open>The cost of a cart; upstream may omit \<open>totalTaxAmount\<close>.\<close>

record CartCost =
  subtotalAmount :: Money
  totalAmount :: Money
  totalTaxAmount :: "Money option"

record Cart =
  cart_id :: string
  checkoutUrl :: string
  cost :: CartCost
  lines :: "CartItem list"
  totalQuantity :: int

text \<open>The argument records of \<open>addToCart\<close> and \<open>updateCart\<close>.\<close>

record AddLine =
  add_merchandiseId :: string
  add_quantity :: int

record UpdateLine =
  upd_id :: string
  upd_merchandiseId :: string
  upd_quantity :: int

definition usd :: "string \<Rightarrow> Money" where
  "usd a = \<lparr>amount = a, currencyCode = ''USD''\<rparr>"

definition tshirtImage :: "string \<Rightarrow> Image" where
  "tshirtImage alt =
     \<lparr>url = ''/local_data_store/t-shirt-1.avif'', altText = Some alt, width = 500, height = 500\<rparr>"

definition tshirtMerchandise :: Merchandise where
  "tshirtMerchandise =
     \<lparr>m_id = ''001'', m_title = ''Acme Classic T-Shirt'',
      m_selectedOptions = [\<lparr>so_name = ''Size'', so_value = ''Medium''\<rparr>],
      m_product = \<lparr>cp_id = ''001'', cp_handle = ''classic-t-shirt'',
                   cp_title = ''Acme Classic T-Shirt'',
                   cp_featuredImage = tshirtImage ''A cool t-shirt''\<rparr>\<rparr>"

definition hoodieMerchandise :: "Image \<Rightarrow> Merchandise" where
  "hoodieMerchandise img =
     \<lparr>m_id = ''002'', m_title = ''Acme Vintage Hoodie'',
      m_selectedOptions = [\<lparr>so_name = ''Size'', so_value = ''Large''\<rparr>],
      m_product = \<lparr>cp_id = ''002'', cp_handle = ''vintage-hoodie'',
                   cp_title = ''Acme Vintage Hoodie'', cp_featuredImage = img\<rparr>\<rparr>"

text \<open>\<open>createCart()\<close>: a static cart with one line of quantity 5 and \<open>totalQuantity: 1\<close>.\<close>

definition createCart :: Cart where
  "createCart =
     \<lparr>cart_id = ''newCartId123'',
      checkoutUrl = ''https://example.com/checkout'',
      cost = \<lparr>subtotalAmount = usd ''60.00'', totalAmount = usd ''70.00'',
              totalTaxAmount = Some (usd ''10.00'')\<rparr>,
      lines = [\<lparr>line_id = ''line1'', quantity = 5,
                line_cost = \<lparr>line_totalAmount = usd ''60.00''\<rparr>,
                merchandise = hoodieMerchandise
                  \<lparr>url = ''/local_data_store/hoodie-1.avif'', altText = Some ''A vintage hoodie'',
                   width = 500, height = 500\<rparr>\<rparr>],
      totalQuantity = 1\<rparr>"

text \<open>\<open>addToCart(cartId, lines)\<close>: a static cart; \<open>lines\<close> is not read.\<close>

definition addToCart :: "string \<Rightarrow> AddLine list \<Rightarrow> Cart" where
  "addToCart cartId ls =
     \<lparr>cart_id = cartId,
      checkoutUrl = ''https://example.com/checkout'',
      cost = \<lparr>subtotalAmount = usd ''120.00'', totalAmount = usd ''130.00'',
              totalTaxAmount = Some (usd ''10.00'')\<rparr>,
      lines = [\<lparr>line_id = ''line1'', quantity = 2,
                line_cost = \<lparr>line_totalAmount = usd ''60.00''\<rparr>,
                merchandise = tshirtMerchandise\<rparr>,
               \<lparr>line_id = ''line2'', quantity = 1,
                line_cost = \<lparr>line_totalAmount = usd ''60.00''\<rparr>,
                merchandise = hoodieMerchandise (tshirtImage ''A vintage hoodie'')\<rparr>],
      totalQuantity = 3\<rparr>"

text \<open>\<open>removeFromCart(cartId, lineIds)\<close>: a static cart; \<open>lineIds\<close> is not read.\<close>

definition removeFromCart :: "string \<Rightarrow> string list \<Rightarrow> Cart" where
  "removeFromCart cartId lineIds =
     \<lparr>cart_id = cartId,
      checkoutUrl = ''https://example.com/checkout'',
      cost = \<lparr>subtotalAmount = usd ''80.00'', totalAmount = usd ''88.00'',
              totalTaxAmount = Some (usd ''8.00'')\<rparr>,
      lines = [\<lparr>line_id = ''line1'', quantity = 1,
                line_cost = \<lparr>line_totalAmount = usd ''40.00''\<rparr>,
                merchandise = tshirtMerchandise\<rparr>],
      totalQuantity = 1\<rparr>"

text \<open>
  \<open>updateCart(cartId, lines)\<close>: one cart line per requested line, and the total is
  \<open>lines.reduce((total, line) => total + line.quantity, 0)\<close>.  JavaScript numbers are
  doubles: the \<open>+\<close> of the \<open>reduce\<close> is the parameter \<open>numberAdd\<close> (on doubles that hold
  integers it is the exact sum as long as that sum is at most \<open>2^53\<close> in absolute value,
  and rounds beyond), and the amount of a line, \<open>(40 * line.quantity).toFixed(2)\<close>, is
  the parameter \<open>lineAmount\<close> applied to the quantity.
\<close>

definition updateCartLine :: "(int \<Rightarrow> string) \<Rightarrow> UpdateLine \<Rightarrow> CartItem" where
  "updateCartLine lineAmount line =
     \<lparr>line_id = upd_id line, quantity = upd_quantity line,
      line_cost = \<lparr>line_totalAmount = usd (lineAmount (upd_quantity line))\<rparr>,
      merchandise =
        \<lparr>m_id = upd_merchandiseId line, m_title = ''Acme Product'',
         m_selectedOptions = [\<lparr>so_name = ''Size'', so_value = ''Default''\<rparr>],
         m_product = \<lparr>cp_id = upd_merchandiseId line, cp_handle = ''product-handle'',
                      cp_title = ''Acme Product'',
                      cp_featuredImage = tshirtImage ''Product Image''\<rparr>\<rparr>\<rparr>"

definition updateCart ::
  "(int \<Rightarrow> int \<Rightarrow> int) \<Rightarrow> (int \<Rightarrow> string) \<Rightarrow> string \<Rightarrow> UpdateLine list \<Rightarrow> Cart" where
  "updateCart numberAdd lineAmount cartId ls =
     \<lparr>cart_id = cartId,
      checkoutUrl = ''https://example.com/checkout'',
      cost = \<lparr>subtotalAmount = usd ''160.00'', totalAmount = usd ''172.00'',
              totalTaxAmount = Some (usd ''12.00'')\<rparr>,
      lines = map (updateCartLine lineAmount) ls,
      totalQuantity = foldl (\<lambda>total line. numberAdd total (upd_quantity line)) 0 ls\<rparr>"

text \<open>
  \<open>getCart(cartId)\<close>: \<open>!cartId\<close> holds for \<open>undefined\<close> and for the empty string, and
  then the result is \<open>undefined\<close>; otherwise a static cart with the given id.
\<close>

definition getCart :: "string option \<Rightarrow> Cart option" where
  "getCart cartId =
     (case cartId of
        None \<Rightarrow> None
      | Some cid \<Rightarrow>
          if cid = [] then None
          else Some
            \<lparr>cart_id = cid,
             checkoutUrl = ''https://example.com/checkout'',
             cost = \<lparr>subtotalAmount = usd ''120.00'', totalAmount = usd ''130.00'',
                     totalTaxAmount = Some (usd ''10.00'')\<rparr>,
             lines = [\<lparr>line_id = ''line1'', quantity = 2,
                       line_cost = \<lparr>line_totalAmount = usd ''60.00''\<rparr>,
                       merchandise = tshirtMerchandise\<rparr>],
             totalQuantity = 2\<rparr>)"

text \<open>The sum of the quantity fields of a cart's lines.\<close>

definition lineQuantitySum :: "Cart \<Rightarrow> int" where
  "lineQuantitySum c = sum_list (map quantity (lines c))"

text \<open>Whether a cart has a line of the given merchandise and quantity, and what a line
  shows of the two.\<close>

definition lineKey :: "CartItem \<Rightarrow> string \<times> int" where
  "lineKey l = (m_id (merchandise l), quantity l)"

definition hasLine :: "string \<Rightarrow> int \<Rightarrow> Cart \<Rightarrow> bool" where
  "hasLine m q c = ((m, q) \<in> set (map lineKey (lines c)))"

subsection \<open>Connections and the reshaping of carts\<close>

text \<open>
  \<open>Connection<T>\<close> is \<open>{edges: Array<Edge<T>>}\<close> and \<open>Edge<T>\<close> is \<open>{node: T}\<close>.
  \<open>removeEdgesAndNodes\<close> is \<open>array.edges.map((edge) => edge?.node)\<close>.
\<close>

datatype 'a Edge = Edge (node: 'a)

record 'a Connection =
  edges :: "'a Edge list"

definition removeEdgesAndNodes :: "'a Connection \<Rightarrow> 'a list" where
  "removeEdgesAndNodes array = map node (edges array)"

text \<open>
  The upstream cart.  \<open>reshapeCart\<close> reads \<open>cart.cost?.totalTaxAmount\<close>, so the cost
  itself may be missing; the assignment \<open>cart.cost.totalTaxAmount = ...\<close> then throws a
  \<open>TypeError\<close>.
\<close>

record ShopifyCart =
  sc_id :: string
  sc_checkoutUrl :: string
  sc_cost :: "CartCost option"
  sc_lines :: "CartItem Connection"
  sc_totalQuantity :: int

datatype error = TypeError

definition reshapeCart :: "ShopifyCart \<Rightarrow> error + Cart" where
  "reshapeCart cart =
     (case sc_cost cart of
        None \<Rightarrow> Inl TypeError
      | Some c \<Rightarrow>
          let c' = (if totalTaxAmount c = None
                    then c\<lparr>totalTaxAmount := Some \<lparr>amount = ''0.0'', currencyCode = ''USD''\<rparr>\<rparr>
                    else c)
          in Inr \<lparr>cart_id = sc_id cart, checkoutUrl = sc_checkoutUrl cart, cost = c',
                  lines = removeEdgesAndNodes (sc_lines cart),
                  totalQuantity = sc_totalQuantity cart\<rparr>)"

text \<open>The currency a cart is priced in: that of its total amount.\<close>

definition cartCurrency :: "ShopifyCart \<Rightarrow> string option" where
  "cartCurrency cart = map_option (\<lambda>c. currencyCode (totalAmount c)) (sc_cost cart)"

text \<open>The tax amount of a reshaped cart, when reshaping returns one.\<close>

definition reshapedTax :: "ShopifyCart \<Rightarrow> Money option" where
  "reshapedTax cart =
     (case reshapeCart cart of Inl e \<Rightarrow> None | Inr r \<Rightarrow> totalTaxAmount (cost r))"

text \<open>A cart priced in euros whose cost has no tax amount.\<close>

definition euroCart :: ShopifyCart where
  "euroCart =
     \<lparr>sc_id = ''gid://shopify/Cart/1'', sc_checkoutUrl = ''https://example.com/checkout'',
      sc_cost = Some \<lparr>subtotalAmount = \<lparr>amount = ''10.0'', currencyCode = ''EUR''\<rparr>,
                       totalAmount = \<lparr>amount = ''10.0'', currencyCode = ''EUR''\<rparr>,
                       totalTaxAmount = None\<rparr>,
      sc_lines = \<lparr>edges = []\<rparr>, sc_totalQuantity = 0\<rparr>"

subsection \<open>Collections\<close>

record SEO =
  seo_title :: string
  seo_description :: string

record ShopifyCollection =
  c_handle :: string
  c_title :: string
  c_description :: string
  c_seo :: SEO
  c_updatedAt :: string

record Collection = ShopifyCollection +
  c_path :: string

text \<open>\<open>reshapeCollection\<close>: \<open>undefined\<close> for a missing collection, otherwise the collection
  with \<open>path: `/search/${collection.handle}`\<close>.\<close>

definition reshapeCollection :: "ShopifyCollection option \<Rightarrow> Collection option" where
  "reshapeCollection collection =
     (case collection of
        None \<Rightarrow> None
      | Some c \<Rightarrow>
          Some \<lparr>c_handle = c_handle c, c_title = c_title c, c_description = c_description c,
                c_seo = c_seo c, c_updatedAt = c_updatedAt c,
                c_path = ''/search/'' @ c_handle c\<rparr>)"

fun reshapeCollections :: "ShopifyCollection option list \<Rightarrow> Collection list" where
  "reshapeCollections [] = []"
| "reshapeCollections (collection # rest) =
     (case collection of
        None \<Rightarrow> reshapeCollections rest
      | Some c \<Rightarrow>
          (case reshapeCollection (Some c) of
             None \<Rightarrow> reshapeCollections rest
           | Some reshapedCollection \<Rightarrow> reshapedCollection # reshapeCollections rest))"

text \<open>
  Reading \<open>obj[key]\<close> on an object literal: an own property if there is one, otherwise
  what the object inherits from \<open>Object.prototype\<close>, otherwise \<open>undefined\<close>.
\<close>

datatype 'a JSProperty = Undefined | Own 'a | Inherited string

definition objectPrototypeKeys :: "string list" where
  "objectPrototypeKeys =
     [''constructor'', ''__defineGetter__'', ''__defineSetter__'', ''hasOwnProperty'',
      ''__lookupGetter__'', ''__lookupSetter__'', ''isPrototypeOf'', ''propertyIsEnumerable'',
      ''toString'', ''valueOf'', ''__proto__'', ''toLocaleString'']"

definition jsGet :: "(string \<times> 'a) list \<Rightarrow> string \<Rightarrow> 'a JSProperty" where
  "jsGet obj k =
     (case map_of obj k of
        Some v \<Rightarrow> Own v
      | None \<Rightarrow> if k \<in> set objectPrototypeKeys then Inherited k else Undefined)"

text \<open>
  \<open>getCollection(handle)\<close>: \<open>collections[handle]\<close> on a literal with the single key
  \<open>'All'\<close>.  \<open>new Date().toISOString()\<close> is the parameter \<open>now\<close>.
\<close>

definition getCollection :: "string \<Rightarrow> string \<Rightarrow> Collection JSProperty" where
  "getCollection now handle =
     jsGet [(''All'',
             \<lparr>c_handle = ''spring-2020'', c_title = ''Spring 2020 Collection'',
              c_description = ''Explore our exciting new collection for Spring 2020!'',
              c_seo = \<lparr>seo_title = ''Spring 2020 Collection'',
                       seo_description = ''Browse our Spring 2020 collection featuring vibrant colors and fresh designs.''\<rparr>,
              c_updatedAt = now,
              c_path = ''/collections/spring-2020''\<rparr>)] handle"

definition startsWith :: "string \<Rightarrow> string \<Rightarrow> bool" where
  "startsWith s p = (take (length p) s = p)"

text \<open>\<open>getCollections()\<close>: the static list, without the collections whose handle starts
  with \<open>hidden\<close>.\<close>

definition getCollections :: "string \<Rightarrow> Collection list" where
  "getCollections now =
     filter (\<lambda>collection. \<not> startsWith (c_handle collection) ''hidden'')
       [\<lparr>c_handle = [], c_title = ''All'', c_description = ''All products'',
         c_seo = \<lparr>seo_title = ''All'', seo_description = ''All products''\<rparr>,
         c_updatedAt = now, c_path = ''/search''\<rparr>]"

text \<open>What a function shows of an own property; \<open>None\<close> when the property read is not an
  own one.\<close>

definition mapOwn :: "('a \<Rightarrow> 'b) \<Rightarrow> 'a JSProperty \<Rightarrow> 'b option" where
  "mapOwn f p = (case p of Own v \<Rightarrow> Some (f v) | Undefined \<Rightarrow> None | Inherited k \<Rightarrow> None)"

text \<open>The path the handle of a collection determines, and whether a collection has it.\<close>

definition searchPath :: "string \<Rightarrow> string" where
  "searchPath h = ''/search/'' @ h"

definition pathDerived :: "Collection \<Rightarrow> bool" where
  "pathDerived c = (c_path c = searchPath (c_handle c))"

subsection \<open>Images\<close>

text \<open>
  \<open>image.url.match(/.*\/(.*)\..*/)?.[1]\<close>, as the backtracking matcher runs it.  A dot
  matches every character but a line terminator (line feed and carriage return, among
  8-bit code units).  Each \<open>.*\<close> is greedy: it first takes the longest run and gives
  characters back one at a time.  \<open>matchGroup k s\<close> lets the group take \<open>k\<close> characters of
  \<open>s\<close> and needs a literal dot next (the last \<open>.*\<close> then matches whatever follows);
  \<open>matchPrefix k s\<close> lets the first \<open>.*\<close> take \<open>k\<close> characters and needs a slash next;
  \<open>filenameMatch\<close> tries the start positions from left to right.  \<open>None\<close> is \<open>undefined\<close>.
\<close>

definition isLineTerminator :: "char \<Rightarrow> bool" where
  "isLineTerminator c = (c = CHR 0x0A \<or> c = CHR 0x0D)"

definition dotRun :: "string \<Rightarrow> nat" where
  "dotRun s = length (takeWhile (\<lambda>c. \<not> isLineTerminator c) s)"

definition nextIs :: "char \<Rightarrow> string \<Rightarrow> bool" where
  "nextIs c s = (case s of [] \<Rightarrow> False | x # xs \<Rightarrow> x = c)"

fun matchGroup :: "nat \<Rightarrow> string \<Rightarrow> string option" where
  "matchGroup 0 s = (if nextIs (CHR ''.'') s then Some [] else None)"
| "matchGroup (Suc k) s =
     (if nextIs (CHR ''.'') (drop (Suc k) s) then Some (take (Suc k) s) else matchGroup k s)"

definition afterSlash :: "nat \<Rightarrow> string \<Rightarrow> string option" where
  "afterSlash k s =
     (if nextIs (CHR ''/'') (drop k s)
      then matchGroup (dotRun (drop (Suc k) s)) (drop (Suc k) s)
      else None)"

fun matchPrefix :: "nat \<Rightarrow> string \<Rightarrow> string option" where
  "matchPrefix 0 s = afterSlash 0 s"
| "matchPrefix (Suc k) s =
     (case afterSlash (Suc k) s of Some g \<Rightarrow> Some g | None \<Rightarrow> matchPrefix k s)"

fun filenameMatch :: "string \<Rightarrow> string option" where
  "filenameMatch [] = None"
| "filenameMatch (x # xs) =
     (case matchPrefix (dotRun (x # xs)) (x # xs) of
        Some g \<Rightarrow> Some g
      | None \<Rightarrow> filenameMatch xs)"

text \<open>
  \<open>reshapeImages\<close>: \<open>altText: image.altText || `${productTitle} - ${filename}`\<close>.  A missing
  and an empty \<open>altText\<close> are both falsy; an \<open>undefined\<close> filename is written into the
  template as the text \<open>undefined\<close>.
\<close>

definition derivedAltText :: "string \<Rightarrow> string option \<Rightarrow> string" where
  "derivedAltText productTitle filename =
     productTitle @ '' - '' @ (case filename of None \<Rightarrow> ''undefined'' | Some f \<Rightarrow> f)"

definition lacksAltText :: "Image \<Rightarrow> bool" where
  "lacksAltText img = (altText img = None \<or> altText img = Some [])"

definition reshapeImage :: "string \<Rightarrow> Image \<Rightarrow> Image" where
  "reshapeImage productTitle img =
     (let filename = filenameMatch (url img)
      in img\<lparr>altText :=
           (if lacksAltText img then Some (derivedAltText productTitle filename)
            else altText img)\<rparr>)"

definition reshapeImages :: "Image Connection \<Rightarrow> string \<Rightarrow> Image list" where
  "reshapeImages images productTitle =
     map (reshapeImage productTitle) (removeEdgesAndNodes images)"

subsection \<open>Products\<close>

record ProductOption =
  po_id :: string
  po_name :: string
  po_values :: "string list"

record ProductVariant =
  pv_id :: string
  pv_title :: string
  pv_availableForSale :: bool
  pv_selectedOptions :: "SelectedOption list"
  pv_price :: Money

record PriceRange =
  maxVariantPrice :: Money
  minVariantPrice :: Money

record Product =
  p_id :: string
  p_handle :: string
  p_title :: string
  p_availableForSale :: bool
  p_description :: string
  p_descriptionHtml :: string
  p_options :: "ProductOption list"
  p_priceRange :: PriceRange
  p_variants :: "ProductVariant list"
  p_images :: "Image list"
  p_featuredImage :: Image
  p_seo :: SEO
  p_tags :: "string list"
  p_updatedAt :: string

subsection \<open>Comparing the values of a product field\<close>

text \<open>
  \<open>a[sortKey] < b[sortKey]\<close>.  Both operands are read with the same key.  Two strings are
  compared code unit by code unit; two booleans as the numbers 0 and 1; an object or an
  array is first converted to a string: an object to \<open>[object Object]\<close>, an array to its
  elements' strings joined by commas.  A key that is no property of a product reads
  \<open>undefined\<close> on both sides, and \<open>undefined < undefined\<close> is false.
\<close>

fun strLess :: "string \<Rightarrow> string \<Rightarrow> bool" where
  "strLess [] [] = False"
| "strLess [] (y # ys) = True"
| "strLess (x # xs) [] = False"
| "strLess (x # xs) (y # ys) =
     ((of_char x :: nat) < of_char y \<or> (x = y \<and> strLess xs ys))"

definition objectString :: string where
  "objectString = ''[object Object]''"

fun joinComma :: "string list \<Rightarrow> string" where
  "joinComma [] = []"
| "joinComma [x] = x"
| "joinComma (x # y # ys) = x @ '','' @ joinComma (y # ys)"

datatype ProductField = StringField "Product \<Rightarrow> string" | BooleanField "Product \<Rightarrow> bool"

definition productField :: "string \<Rightarrow> ProductField option" where
  "productField key =
     (if key = ''id'' then Some (StringField p_id)
      else if key = ''handle'' then Some (StringField p_handle)
      else if key = ''title'' then Some (StringField p_title)
      else if key = ''availableForSale'' then Some (BooleanField p_availableForSale)
      else if key = ''description'' then Some (StringField p_description)
      else if key = ''descriptionHtml'' then Some (StringField p_descriptionHtml)
      else if key = ''options''
        then Some (StringField (\<lambda>p. joinComma (map (\<lambda>x. objectString) (p_options p))))
      else if key = ''priceRange'' then Some (StringField (\<lambda>p. objectString))
      else if key = ''variants''
        then Some (StringField (\<lambda>p. joinComma (map (\<lambda>x. objectString) (p_variants p))))
      else if key = ''images''
        then Some (StringField (\<lambda>p. joinComma (map (\<lambda>x. objectString) (p_images p))))
      else if key = ''featuredImage'' then Some (StringField (\<lambda>p. objectString))
      else if key = ''seo'' then Some (StringField (\<lambda>p. objectString))
      else if key = ''tags'' then Some (StringField (\<lambda>p. joinComma (p_tags p)))
      else if key = ''updatedAt'' then Some (StringField p_updatedAt)
      else None)"

definition lessAt :: "string \<Rightarrow> Product \<Rightarrow> Product \<Rightarrow> bool" where
  "lessAt key a b =
     (case productField key of
        Some (StringField f) \<Rightarrow> strLess (f a) (f b)
      | Some (BooleanField f) \<Rightarrow> (\<not> f a \<and> f b)
      | None \<Rightarrow> False)"

text \<open>\<open>a[sortKey] > b[sortKey]\<close> is \<open>b[sortKey] < a[sortKey]\<close> with the same conversions.\<close>

definition greaterAt :: "string \<Rightarrow> Product \<Rightarrow> Product \<Rightarrow> bool" where
  "greaterAt key a b = lessAt key b a"

text \<open>The value two products are compared by: what \<open>p[key]\<close> is converted to.\<close>

datatype JSValue = JSString string | JSBoolean bool | JSUndefined

definition sortValue :: "string \<Rightarrow> Product \<Rightarrow> JSValue" where
  "sortValue key p =
     (case productField key of
        Some (StringField f) \<Rightarrow> JSString (f p)
      | Some (BooleanField f) \<Rightarrow> JSBoolean (f p)
      | None \<Rightarrow> JSUndefined)"

subsection \<open>\<open>Array.prototype.sort\<close> with a comparator\<close>

text \<open>
  The sort is stable and, for a consistent comparator, its result is the one stable
  arrangement; it is modelled by insertion from the right: an element goes in front of the
  first element it does not compare greater than.
\<close>

fun insertSorted :: "('a \<Rightarrow> 'a \<Rightarrow> int) \<Rightarrow> 'a \<Rightarrow> 'a list \<Rightarrow> 'a list" where
  "insertSorted cmp x [] = [x]"
| "insertSorted cmp x (y # ys) =
     (if cmp x y \<le> 0 then x # y # ys else y # insertSorted cmp x ys)"

definition arraySort :: "('a \<Rightarrow> 'a \<Rightarrow> int) \<Rightarrow> 'a list \<Rightarrow> 'a list" where
  "arraySort cmp xs = foldr (insertSorted cmp) xs []"

text \<open>A condition \<open>x ? ... : ...\<close> on an optional boolean or string: \<open>undefined\<close>, \<open>false\<close> and
  the empty string are falsy.\<close>

definition truthyFlag :: "bool option \<Rightarrow> bool" where
  "truthyFlag b = (b = Some True)"

definition truthyString :: "string option \<Rightarrow> bool" where
  "truthyString s = (s \<noteq> None \<and> s \<noteq> Some [])"

subsection \<open>\<open>getCollectionProducts\<close>\<close>

definition sizeOption :: "string \<Rightarrow> ProductOption" where
  "sizeOption oid = \<lparr>po_id = oid, po_name = ''Size'', po_values = [''Small'', ''Medium'', ''Large'']\<rparr>"

definition smallVariant :: "string \<Rightarrow> string \<Rightarrow> string \<Rightarrow> string \<Rightarrow> ProductVariant" where
  "smallVariant vid vtitle sz price =
     \<lparr>pv_id = vid, pv_title = vtitle, pv_availableForSale = True,
      pv_selectedOptions = [\<lparr>so_name = ''Size'', so_value = sz\<rparr>],
      pv_price = usd price\<rparr>"

definition squareImage :: "string \<Rightarrow> string \<Rightarrow> Image" where
  "squareImage u alt = \<lparr>url = u, altText = Some alt, width = 500, height = 500\<rparr>"

definition collectionProduct :: "string \<Rightarrow> string \<Rightarrow> string \<Rightarrow> string \<Rightarrow> string \<Rightarrow> Product" where
  "collectionProduct h t d u updated =
     \<lparr>p_id = ''001'', p_handle = h, p_title = t, p_availableForSale = True,
      p_description = d, p_descriptionHtml = ''<p>'' @ d @ ''</p>'',
      p_options = [sizeOption ''option1''],
      p_priceRange = \<lparr>maxVariantPrice = usd ''19.99'', minVariantPrice = usd ''19.99''\<rparr>,
      p_variants = [smallVariant ''00101'' ''Small'' ''Small'' ''19.99''],
      p_images = [squareImage u ''A cool t-shirt''],
      p_featuredImage = squareImage u ''A cool t-shirt'',
      p_seo = \<lparr>seo_title = ''Buy Classic T-Shirt'',
               seo_description = ''Comfortable and stylish classic cotton t-shirts''\<rparr>,
      p_tags = [''fashion'', ''cotton'', ''t-shirt''],
      p_updatedAt = updated\<rparr>"

text \<open>The four static products; \<open>now i\<close> is the \<open>i\<close>-th \<open>new Date().toISOString()\<close>.\<close>

definition collectionStaticProducts :: "(nat \<Rightarrow> string) \<Rightarrow> Product list" where
  "collectionStaticProducts now =
     [collectionProduct ''classic-t-shirt'' ''Acme Classic T-Shirt'' ''A classic cotton t-shirt''
        ''/local_data_store/t-shirt-1.avif'' (now 0),
      collectionProduct ''acme-cup'' ''Acme Cup'' ''A cup''
        ''/local_data_store/image copy.png'' (now 1),
      collectionProduct ''acme-drawstring-bag'' ''Acme Drawstring Bag'' ''A classic cotton t-shirt''
        ''/local_data_store/image.png'' (now 2),
      collectionProduct ''acme-drawstring-bag'' ''Acme Drawstring Bag'' ''A classic cotton t-shirt''
        ''/local_data_store/image.png'' (now 3)]"

definition isValidProductKey :: "string \<Rightarrow> bool" where
  "isValidProductKey key =
     (key \<in> set [''id'', ''handle'', ''title'', ''availableForSale'', ''description'',
                  ''descriptionHtml'', ''options'', ''priceRange'', ''variants'', ''images'',
                  ''featuredImage'', ''seo'', ''tags'', ''updatedAt''])"

text \<open>\<open>keyA > keyB ? 1 : (keyA < keyB ? -1 : 0)\<close>\<close>

definition compareCollectionProducts :: "string \<Rightarrow> Product \<Rightarrow> Product \<Rightarrow> int" where
  "compareCollectionProducts sortKey a b =
     (if greaterAt sortKey a b then 1 else if lessAt sortKey a b then - 1 else 0)"

definition sortCollectionProducts :: "string option \<Rightarrow> Product list \<Rightarrow> Product list" where
  "sortCollectionProducts sortKey products =
     (case sortKey of
        None \<Rightarrow> products
      | Some k \<Rightarrow>
          if truthyString sortKey \<and> isValidProductKey k
          then arraySort (compareCollectionProducts k) products
          else products)"

text \<open>\<open>getCollectionProducts({collection, reverse, sortKey})\<close>: the static products, reversed
  if \<open>reverse\<close>, then sorted if \<open>sortKey\<close> is valid.  \<open>collection\<close> is not read.\<close>

definition getCollectionProducts ::
  "(nat \<Rightarrow> string) \<Rightarrow> string \<Rightarrow> bool option \<Rightarrow> string option \<Rightarrow> Product list" where
  "getCollectionProducts now collection reverse sortKey =
     sortCollectionProducts sortKey
       (if truthyFlag reverse then rev (collectionStaticProducts now)
        else collectionStaticProducts now)"

subsection \<open>\<open>getProducts\<close>\<close>

text \<open>\<open>toLowerCase\<close> on code units up to 255, and \<open>includes\<close> (here \<open>includesStr\<close>).\<close>

definition lowerChar :: "char \<Rightarrow> char" where
  "lowerChar c =
     (let n = (of_char c :: nat)
      in if (65 \<le> n \<and> n \<le> 90) \<or> (192 \<le> n \<and> n \<le> 222 \<and> n \<noteq> 215)
         then char_of (n + 32) else c)"

definition toLowerCase :: "string \<Rightarrow> string" where
  "toLowerCase s = map lowerChar s"

fun includesStr :: "string \<Rightarrow> string \<Rightarrow> bool" where
  "includesStr [] sub = (sub = [])"
| "includesStr (x # xs) sub = (startsWith (x # xs) sub \<or> includesStr xs sub)"

definition staticProducts :: "string \<Rightarrow> Product list" where
  "staticProducts now =
     [\<lparr>p_id = ''001'', p_handle = ''classic-t-shirt'', p_title = ''Classic T-Shirt'',
       p_availableForSale = True,
       p_description = ''A perfect t-shirt for everyday wear.'',
       p_descriptionHtml = ''<p>A perfect t-shirt for everyday wear.</p>'',
       p_options = [sizeOption ''opt1''],
       p_priceRange = \<lparr>maxVariantPrice = usd ''19.99'', minVariantPrice = usd ''19.99''\<rparr>,
       p_variants = [smallVariant ''001-small'' ''Small Size'' ''Small'' ''19.99''],
       p_images = [squareImage ''/local_data_store/t-shirt-1.avif'' ''Classic T-Shirt''],
       p_featuredImage =
         squareImage ''/local_data_store/t-shirt-1.avif'' ''Feature image of Classic T-Shirt'',
       p_seo = \<lparr>seo_title = ''Buy Classic T-Shirt'',
                seo_description = ''Comfortable and stylish classic cotton t-shirts''\<rparr>,
       p_tags = [''fashion'', ''cotton'', ''t-shirt''],
       p_updatedAt = now\<rparr>]"

definition isKeyOfProduct :: "string \<Rightarrow> bool" where
  "isKeyOfProduct key =
     (key \<in> set [''id'', ''handle'', ''title'', ''description'', ''availableForSale'',
                  ''descriptionHtml'', ''options'', ''priceRange'', ''variants'', ''images'',
                  ''seo'', ''tags'', ''updatedAt''])"

definition filterProducts :: "string option \<Rightarrow> Product list \<Rightarrow> Product list" where
  "filterProducts query products =
     (case query of
        None \<Rightarrow> products
      | Some q \<Rightarrow>
          if truthyString query
          then filter (\<lambda>product. includesStr (toLowerCase (p_title product)) (toLowerCase q)
                                \<or> includesStr (toLowerCase (p_description product)) (toLowerCase q))
                 products
          else products)"

text \<open>The comparator of \<open>getProducts\<close>: \<open>-1\<close> or \<open>1\<close> by \<open>reverse\<close> when \<open>valueA < valueB\<close>,
  the opposite when \<open>valueA > valueB\<close>, otherwise 0.\<close>

definition compareProducts :: "bool option \<Rightarrow> string \<Rightarrow> Product \<Rightarrow> Product \<Rightarrow> int" where
  "compareProducts reverse sortKey a b =
     (if lessAt sortKey a b then (if truthyFlag reverse then 1 else - 1)
      else if greaterAt sortKey a b then (if truthyFlag reverse then - 1 else 1)
      else 0)"

definition sortProducts :: "bool option \<Rightarrow> string option \<Rightarrow> Product list \<Rightarrow> Product list" where
  "sortProducts reverse sortKey products =
     (case sortKey of
        None \<Rightarrow> products
      | Some k \<Rightarrow>
          if truthyString sortKey \<and> isKeyOfProduct k
          then arraySort (compareProducts reverse k) products
          else products)"

definition getProducts ::
  "string \<Rightarrow> string option \<Rightarrow> bool option \<Rightarrow> string option \<Rightarrow> Product list" where
  "getProducts now query reverse sortKey =
     sortProducts reverse sortKey (filterProducts query (staticProducts now))"

subsection \<open>The revalidation webhook\<close>

text \<open>
  Modelled from the spec: \<open>TAGS\<close> of \<open>lib/constants\<close> is not among the sources; the spec
  gives the two cache tags \<open>collections\<close> and \<open>products\<close>.
\<close>

definition TAGS_collections :: string where
  "TAGS_collections = ''collections''"

definition TAGS_products :: string where
  "TAGS_products = ''products''"

text \<open>
  \<open>NextResponse.json(body)\<close> is an HTTP response of status 200 with the JSON body;
  the body's own fields are \<open>status\<close>, \<open>revalidated\<close> and \<open>now\<close>.
\<close>

record RevalidateBody =
  rb_status :: nat
  rb_revalidated :: "bool option"
  rb_now :: "nat option"

record NextResponse =
  httpStatus :: nat
  body :: RevalidateBody

definition json :: "RevalidateBody \<Rightarrow> NextResponse" where
  "json b = \<lparr>httpStatus = 200, body = b\<rparr>"

text \<open>What a call of \<open>revalidate\<close> leaves behind: its response, the tags passed to
  \<open>revalidateTag\<close> in order, and the lines written by \<open>console.error\<close>.\<close>

record Outcome =
  response :: NextResponse
  revalidatedTags :: "string list"
  consoleErrors :: "string list"

text \<open>
  \<open>revalidate(req)\<close>.  \<open>envSecret\<close> is \<open>process.env.SHOPIFY_REVALIDATION_SECRET\<close>,
  \<open>topicHeader\<close> is \<open>headers().get('x-shopify-topic')\<close>, \<open>secret\<close> is
  \<open>req.nextUrl.searchParams.get('secret')\<close> and \<open>dateNow\<close> is \<open>Date.now()\<close>.
\<close>

definition revalidate ::
  "string option \<Rightarrow> string option \<Rightarrow> string option \<Rightarrow> nat \<Rightarrow> Outcome" where
  "revalidate envSecret topicHeader secret dateNow =
     (let collectionWebhooks = [''collections/create'', ''collections/delete'', ''collections/update''];
          productWebhooks = [''products/create'', ''products/delete'', ''products/update''];
          topic = (case topicHeader of
                     None \<Rightarrow> ''unknown''
                   | Some t \<Rightarrow> if t = [] then ''unknown'' else t);
          isCollectionUpdate = (topic \<in> set collectionWebhooks);
          isProductUpdate = (topic \<in> set productWebhooks)
      in if \<not> truthyString secret \<or> secret \<noteq> envSecret
         then \<lparr>response = json \<lparr>rb_status = 200, rb_revalidated = None, rb_now = None\<rparr>,
               revalidatedTags = [], consoleErrors = [''Invalid revalidation secret.'']\<rparr>
         else if \<not> isCollectionUpdate \<and> \<not> isProductUpdate
         then \<lparr>response = json \<lparr>rb_status = 200, rb_revalidated = None, rb_now = None\<rparr>,
               revalidatedTags = [], consoleErrors = []\<rparr>
         else \<lparr>response = json \<lparr>rb_status = 200, rb_revalidated = Some True,
                                 rb_now = Some dateNow\<rparr>,
               revalidatedTags = (if isCollectionUpdate then [TAGS_collections] else [])
                                 @ (if isProductUpdate then [TAGS_products] else []),
               consoleErrors = []\<rparr>)"

section \<open>Cart totals\<close>

text \<open>
  Where the additions of the \<open>reduce\<close> are exact (quantities that are not negative and add
  up to at most \<open>2^53\<close>), the total of \<open>updateCart\<close> is the sum of its lines' quantities.
\<close>

lemma foldl_numberAdd:
  assumes exact: "\<And>a b. \<bar>a + b\<bar> \<le> 2 ^ 53 \<Longrightarrow> numberAdd a b = a + b"
    and "0 \<le> a"
    and "\<forall>l \<in> set ls. 0 \<le> upd_quantity l"
    and "a + sum_list (map upd_quantity ls) \<le> 2 ^ 53"
  shows "foldl (\<lambda>total line. numberAdd total (upd_quantity line)) a ls
           = a + sum_list (map upd_quantity ls)"
  using assms(2-4)
proof (induction ls arbitrary: a)
  case Nil
  show ?case by simp
next
  case (Cons l ls)
  have rest: "0 \<le> sum_list (map upd_quantity ls)"
    using Cons.prems(2) by (intro sum_list_nonneg) auto
  have q: "0 \<le> upd_quantity l" using Cons.prems(2) by simp
  from Cons.prems(1,3) rest q have "\<bar>a + upd_quantity l\<bar> \<le> 2 ^ 53" by simp
  then have step: "numberAdd a (upd_quantity l) = a + upd_quantity l" by (rule exact)
  have "foldl (\<lambda>total line. numberAdd total (upd_quantity line)) (a + upd_quantity l) ls
          = (a + upd_quantity l) + sum_list (map upd_quantity ls)"
    using Cons.prems q by (intro Cons.IH) simp_all
  with step show ?case by simp
qed

lemma updateCart_total:
  assumes "\<And>a b. \<bar>a + b\<bar> \<le> 2 ^ 53 \<Longrightarrow> numberAdd a b = a + b"
    and "\<forall>l \<in> set ls. 0 \<le> upd_quantity l"
    and "sum_list (map upd_quantity ls) \<le> 2 ^ 53"
  shows "totalQuantity (updateCart numberAdd lineAmount cartId ls)
           = lineQuantitySum (updateCart numberAdd lineAmount cartId ls)"
proof -
  have "foldl (\<lambda>total line. numberAdd total (upd_quantity line)) 0 ls
          = 0 + sum_list (map upd_quantity ls)"
    using assms by (intro foldl_numberAdd) simp_all
  then show ?thesis
    by (simp add: updateCart_def lineQuantitySum_def updateCartLine_def comp_def)
qed

lemma addToCart_total: "totalQuantity (addToCart cartId ls) = lineQuantitySum (addToCart cartId ls)"
  by (simp add: addToCart_def lineQuantitySum_def)

lemma removeFromCart_total:
  "totalQuantity (removeFromCart cartId ids) = lineQuantitySum (removeFromCart cartId ids)"
  by (simp add: removeFromCart_def lineQuantitySum_def)

lemma getCart_total: "getCart cartId = Some c \<Longrightarrow> totalQuantity c = lineQuantitySum c"
  by (auto simp: getCart_def lineQuantitySum_def split: option.splits if_splits)

text \<open>
  C1.  Every cart operation is claimed to return a cart whose \<open>totalQuantity\<close> is the sum
  of its lines' quantities.  \<open>addToCart\<close>, \<open>removeFromCart\<close> and \<open>getCart\<close> do, and so
  does \<open>updateCart\<close> where its additions are exact (the four lemmas above); \<open>createCart\<close>
  returns one line of quantity 5 together with
  \<open>totalQuantity\<close> 1, although its own comments say "one hoodie" and "only one item".
\<close>

theorem createCart_total_mismatch:
  "totalQuantity createCart = 1 \<and> lineQuantitySum createCart = 5
   \<and> totalQuantity createCart \<noteq> lineQuantitySum createCart"
  by (simp add: createCart_def lineQuantitySum_def)

section \<open>Write then read\<close>

text \<open>
  C2 as stated: after \<open>addToCart(cartId, [{merchandiseId: m, quantity: q}])\<close>, re-reading the
  id of the written cart gives a cart with a line of merchandise \<open>m\<close> and quantity \<open>q\<close>.
  It fails for \<open>cartId = "abc"\<close>, \<open>m = "m1"\<close>, \<open>q = 2\<close>: a cart is read back, and it
  has no such line.
\<close>

theorem addToCart_getCart_counterexample:
  "map_option (hasLine ''m1'' 2)
     (getCart (Some (cart_id (addToCart ''abc''
        [\<lparr>add_merchandiseId = ''m1'', add_quantity = 2\<rparr>])))) = Some False"
  by (simp add: addToCart_def getCart_def tshirtMerchandise_def hasLine_def lineKey_def)

text \<open>
  C2, amended: for every non-empty cart id and every requested line, the cart re-read after
  \<open>addToCart\<close> carries the same id and exactly one line, of merchandise \<open>001\<close> and
  quantity 2, whatever was requested; so it has a line with the requested merchandise and
  quantity exactly when these are \<open>001\<close> and 2.
\<close>

theorem addToCart_getCart_static:
  fixes m :: string and q :: int
  assumes "cartId \<noteq> []"
  defines "reread \<equiv> getCart (Some (cart_id (addToCart cartId
                        [\<lparr>add_merchandiseId = m, add_quantity = q\<rparr>])))"
  shows "map_option cart_id reread = Some cartId
       \<and> map_option (\<lambda>c. map lineKey (lines c)) reread = Some [(''001'', 2)]
       \<and> map_option (hasLine m q) reread = Some (m = ''001'' \<and> q = 2)"
  using assms
  by (auto simp: addToCart_def getCart_def tshirtMerchandise_def hasLine_def lineKey_def)

theorem addToCart_getCart_static_witness:
  "''abc'' \<noteq> []
   \<and> map_option (hasLine ''001'' 2)
       (getCart (Some (cart_id (addToCart ''abc''
          [\<lparr>add_merchandiseId = ''001'', add_quantity = 2\<rparr>])))) = Some True"
  using addToCart_getCart_static [where cartId = "''abc''" and m = "''001''" and q = 2]
  by simp

section \<open>Collection paths\<close>

lemma reshapeCollection_path:
  "map_option c_path (reshapeCollection (Some c)) = Some (searchPath (c_handle c))"
  by (simp add: reshapeCollection_def searchPath_def)

lemma reshapeCollection_pathDerived:
  "reshapeCollection c = Some r \<Longrightarrow> pathDerived r"
  by (auto simp: reshapeCollection_def pathDerived_def searchPath_def split: option.splits)

lemma reshapeCollections_pathDerived: "list_all pathDerived (reshapeCollections cs)"
proof (induction cs)
  case Nil
  show ?case by simp
next
  case (Cons c cs)
  show ?case
  proof (cases c)
    case None
    with Cons show ?thesis by simp
  next
    case (Some s)
    have "pathDerived r" if "reshapeCollection (Some s) = Some r" for r
      using that by (rule reshapeCollection_pathDerived)
    with Cons Some show ?thesis by (simp split: option.splits)
  qed
qed

text \<open>
  C3 as stated: every collection returned by \<open>reshapeCollection\<close>, \<open>getCollection\<close> and
  \<open>getCollections\<close> has the path \<open>/search/\<close> followed by its handle.  The one collection
  of \<open>getCollections\<close> has the empty handle and the path \<open>/search\<close>, and the one
  collection of \<open>getCollection\<close> has the handle \<open>spring-2020\<close> and the path
  \<open>/collections/spring-2020\<close>.
\<close>

theorem collection_path_counterexample:
  "map pathDerived (getCollections ''2024-05-01T00:00:00.000Z'') = [False]
   \<and> mapOwn pathDerived (getCollection ''2024-05-01T00:00:00.000Z'' ''All'') = Some False"
  by (simp add: getCollections_def getCollection_def jsGet_def mapOwn_def pathDerived_def
      searchPath_def startsWith_def)

text \<open>
  C3, amended: every collection returned by \<open>reshapeCollection\<close> (and so every element of
  \<open>reshapeCollections\<close>) has the path \<open>/search/\<close> followed by its handle; \<open>getCollections\<close>
  returns exactly the "all products" pseudo-collection, with the empty handle and the path
  \<open>/search\<close>.
\<close>

theorem collection_path_derived:
  "map_option pathDerived (reshapeCollection (Some c)) = Some True
   \<and> list_all pathDerived (reshapeCollections cs)
   \<and> map (\<lambda>r. (c_handle r, c_path r)) (getCollections now) = [([], ''/search'')]"
proof -
  have "map_option pathDerived (reshapeCollection (Some c)) = Some True"
    by (simp add: reshapeCollection_def pathDerived_def searchPath_def)
  moreover have "list_all pathDerived (reshapeCollections cs)"
    by (rule reshapeCollections_pathDerived)
  moreover have "map (\<lambda>r. (c_handle r, c_path r)) (getCollections now) = [([], ''/search'')]"
    by (simp add: getCollections_def startsWith_def)
  ultimately show ?thesis by simp
qed

theorem collection_path_derived_witness:
  "map_option c_path (reshapeCollection (Some
      \<lparr>c_handle = ''spring-2020'', c_title = ''Spring'', c_description = ''New'',
       c_seo = \<lparr>seo_title = ''Spring'', seo_description = ''New''\<rparr>,
       c_updatedAt = ''2024-05-01T00:00:00.000Z''\<rparr>)) = Some ''/search/spring-2020''"
  using collection_path_derived [of
      "\<lparr>c_handle = ''spring-2020'', c_title = ''Spring'', c_description = ''New'',
        c_seo = \<lparr>seo_title = ''Spring'', seo_description = ''New''\<rparr>,
        c_updatedAt = ''2024-05-01T00:00:00.000Z''\<rparr>" "[]" "[]"]
  by (simp add: reshapeCollection_def pathDerived_def searchPath_def)

section \<open>The default tax amount\<close>

text \<open>
  C4 as stated: a cart whose cost lacks a tax amount is reshaped to one whose tax amount is
  zero in the cart's own currency.  For a cart priced in euros the tax amount comes back in
  US dollars.
\<close>

theorem reshapeCart_tax_currency_counterexample:
  "map_option totalTaxAmount (sc_cost euroCart) = Some None
   \<and> cartCurrency euroCart = Some ''EUR''
   \<and> map_option currencyCode (reshapedTax euroCart) = Some ''USD''"
  by (simp add: euroCart_def cartCurrency_def reshapedTax_def reshapeCart_def)

text \<open>
  C4, amended: for every cart whose cost lacks a tax amount, \<open>reshapeCart\<close> returns a cart
  whose tax amount is present, with the amount \<open>0.0\<close> and the currency code \<open>USD\<close>,
  whatever the cart's own currency is.
\<close>

theorem reshapeCart_default_tax:
  assumes "sc_cost K = Some c" and "totalTaxAmount c = None"
  shows "reshapedTax K = Some \<lparr>amount = ''0.0'', currencyCode = ''USD''\<rparr>"
  using assms by (simp add: reshapedTax_def reshapeCart_def)

theorem reshapeCart_default_tax_witness:
  "sc_cost euroCart \<noteq> None \<and> map_option totalTaxAmount (sc_cost euroCart) = Some None
   \<and> reshapedTax euroCart = Some \<lparr>amount = ''0.0'', currencyCode = ''USD''\<rparr>"
proof -
  have c: "sc_cost euroCart = Some \<lparr>subtotalAmount = \<lparr>amount = ''10.0'', currencyCode = ''EUR''\<rparr>,
                       totalAmount = \<lparr>amount = ''10.0'', currencyCode = ''EUR''\<rparr>,
                       totalTaxAmount = None\<rparr>"
    by (simp add: euroCart_def)
  from reshapeCart_default_tax [OF c] c show ?thesis by simp
qed

section \<open>Derived alternative texts\<close>

lemma nextIs_drop:
  assumes "nextIs c (drop k s)"
  shows "c \<in> set s"
proof -
  from assms obtain rest where "drop k s = c # rest"
    by (auto simp: nextIs_def split: list.splits)
  then have "c \<in> set (drop k s)" by simp
  then show ?thesis by (rule in_set_dropD)
qed

lemma matchPrefix_no_slash: "CHR ''/'' \<notin> set s \<Longrightarrow> matchPrefix k s = None"
proof (induction k)
  case 0
  then show ?case using nextIs_drop [of "CHR ''/''" 0 s] by (auto simp: afterSlash_def)
next
  case (Suc k)
  then show ?case using nextIs_drop [of "CHR ''/''" "Suc k" s] by (auto simp: afterSlash_def)
qed

lemma filenameMatch_no_slash: "CHR ''/'' \<notin> set u \<Longrightarrow> filenameMatch u = None"
  by (induction u) (simp_all add: matchPrefix_no_slash)

lemma matchGroup_no_dot: "CHR ''.'' \<notin> set s \<Longrightarrow> matchGroup k s = None"
proof (induction k)
  case 0
  then show ?case using nextIs_drop [of "CHR ''.''" 0 s] by auto
next
  case (Suc k)
  then show ?case using nextIs_drop [of "CHR ''.''" "Suc k" s] by auto
qed

lemma matchPrefix_no_dot: "CHR ''.'' \<notin> set s \<Longrightarrow> matchPrefix k s = None"
proof (induction k)
  case 0
  then have "CHR ''.'' \<notin> set (drop (Suc 0) s)" by (auto dest: in_set_dropD)
  then show ?case by (simp add: afterSlash_def matchGroup_no_dot)
next
  case (Suc k)
  then have "CHR ''.'' \<notin> set (drop (Suc (Suc k)) s)" by (auto dest: in_set_dropD)
  with Suc show ?case by (simp add: afterSlash_def matchGroup_no_dot)
qed

lemma filenameMatch_no_dot: "CHR ''.'' \<notin> set u \<Longrightarrow> filenameMatch u = None"
  by (induction u) (simp_all add: matchPrefix_no_dot)

lemma reshapeImage_no_filename:
  assumes "lacksAltText img" and "filenameMatch (url img) = None"
  shows "altText (reshapeImage productTitle img) = Some (productTitle @ '' - undefined'')"
  using assms by (simp add: reshapeImage_def derivedAltText_def)

text \<open>
  C5.  An image without \<open>altText\<close> whose url has no extractable filename is claimed to get
  the product title alone as its \<open>altText\<close>.  For the url \<open>/local_data_store/hoodie\<close> (no
  dot after the last slash, so the pattern does not match) and the title \<open>Acme Cup\<close> the
  derived text is \<open>Acme Cup - undefined\<close>.
\<close>

theorem reshapeImages_undefined_suffix:
  "filenameMatch ''/local_data_store/hoodie'' = None
   \<and> map altText (reshapeImages
        \<lparr>edges = [Edge \<lparr>url = ''/local_data_store/hoodie'', altText = None,
                         width = 500, height = 500\<rparr>]\<rparr> ''Acme Cup'')
     = [Some ''Acme Cup - undefined'']"
  by code_simp

section \<open>Looking a collection up\<close>

lemma getCollection_All:
  "mapOwn c_handle (getCollection now ''All'') = Some ''spring-2020''"
  by (simp add: getCollection_def jsGet_def mapOwn_def)

lemma getCollection_spring: "getCollection now ''spring-2020'' = Undefined"
  by (simp add: getCollection_def jsGet_def objectPrototypeKeys_def)

lemma getCollection_other:
  assumes "handle \<noteq> ''All''" and "handle \<notin> set objectPrototypeKeys"
  shows "getCollection now handle = Undefined"
  using assms by (simp add: getCollection_def jsGet_def)

text \<open>
  C10.  \<open>getCollection\<close> is claimed to return \<open>undefined\<close> for every handle other than
  \<open>All\<close>.  It returns a collection for \<open>All\<close> only, and that collection's handle is
  \<open>spring-2020\<close>, for which the lookup gives \<open>undefined\<close> (the lemmas above); but for the
  handle \<open>constructor\<close> the read \<open>collections[handle]\<close> finds what the object literal
  inherits from \<open>Object.prototype\<close>, which is not \<open>undefined\<close>.
\<close>

theorem getCollection_inherited_property:
  "getCollection now ''constructor'' = Inherited ''constructor''
   \<and> getCollection now ''constructor'' \<noteq> Undefined"
  by (simp add: getCollection_def jsGet_def objectPrototypeKeys_def)

section \<open>The order of compared values\<close>

lemma strLess_irrefl: "\<not> strLess s s"
  by (induction s) simp_all

lemma strLess_trans: "strLess a b \<Longrightarrow> strLess b c \<Longrightarrow> strLess a c"
proof (induction a b arbitrary: c rule: strLess.induct)
  case (2 y ys)
  then show ?case by (cases c) auto
next
  case (4 x xs y ys)
  then show ?case by (cases c) auto
qed simp_all

lemma strLess_total: "strLess a b \<or> a = b \<or> strLess b a"
proof (induction a b rule: strLess.induct)
  case (4 x xs y ys)
  then show ?case
    using linorder_less_linear [of "of_char x :: nat" "of_char y"] by auto
qed simp_all

lemma strLess_asym: "strLess a b \<Longrightarrow> \<not> strLess b a"
  using strLess_trans [of a b a] strLess_irrefl [of a] by blast

lemma strLess_negtrans: "\<not> strLess b a \<Longrightarrow> \<not> strLess c b \<Longrightarrow> \<not> strLess c a"
  using strLess_total [of b c] strLess_trans [of b c a] by auto

lemma lessAt_asym: "lessAt key a b \<Longrightarrow> \<not> lessAt key b a"
  by (auto simp: lessAt_def dest: strLess_asym split: option.splits ProductField.splits)

lemma lessAt_negtrans: "\<not> lessAt key b a \<Longrightarrow> \<not> lessAt key c b \<Longrightarrow> \<not> lessAt key c a"
  by (auto simp: lessAt_def dest: strLess_negtrans split: option.splits ProductField.splits)

lemma set_insertSorted: "set (insertSorted cmp x ys) = insert x (set ys)"
  by (induction ys) auto

lemma set_arraySort: "set (arraySort cmp xs) = set xs"
  by (induction xs) (simp_all add: arraySort_def set_insertSorted)

lemma sorted_insertSorted:
  assumes total: "\<And>a b. 0 < cmp a b \<Longrightarrow> cmp b a \<le> 0"
      and trans: "\<And>a b c. cmp a b \<le> 0 \<Longrightarrow> cmp b c \<le> 0 \<Longrightarrow> cmp a c \<le> 0"
      and sorted: "sorted_wrt (\<lambda>a b. cmp a b \<le> 0) ys"
  shows "sorted_wrt (\<lambda>a b. cmp a b \<le> 0) (insertSorted cmp x ys)"
  using sorted
proof (induction ys)
  case Nil
  show ?case by simp
next
  case (Cons y ys)
  show ?case
  proof (cases "cmp x y \<le> 0")
    case True
    have "cmp x z \<le> 0" if "z \<in> set ys" for z
    proof -
      from Cons.prems that have "cmp y z \<le> 0" by simp
      with True show ?thesis by (rule trans)
    qed
    with True Cons.prems show ?thesis by simp
  next
    case False
    then have "cmp y x \<le> 0" using total [of x y] by simp
    with False Cons show ?thesis by (simp add: set_insertSorted)
  qed
qed

lemma sorted_arraySort:
  assumes total: "\<And>a b. 0 < cmp a b \<Longrightarrow> cmp b a \<le> 0"
      and trans: "\<And>a b c. cmp a b \<le> 0 \<Longrightarrow> cmp b c \<le> 0 \<Longrightarrow> cmp a c \<le> 0"
  shows "sorted_wrt (\<lambda>a b. cmp a b \<le> 0) (arraySort cmp xs)"
proof (induction xs)
  case Nil
  show ?case by (simp add: arraySort_def)
next
  case (Cons x xs)
  have "sorted_wrt (\<lambda>a b. cmp a b \<le> 0) (insertSorted cmp x (arraySort cmp xs))"
    using total trans Cons by (rule sorted_insertSorted)
  then show ?case by (simp add: arraySort_def)
qed

lemma compareCollectionProducts_le: "compareCollectionProducts key a b \<le> 0 \<longleftrightarrow> \<not> lessAt key b a"
  by (simp add: compareCollectionProducts_def greaterAt_def)

lemma compareProducts_le:
  "compareProducts reverse key a b \<le> 0
     \<longleftrightarrow> (if truthyFlag reverse then \<not> lessAt key a b else \<not> lessAt key b a)"
  using lessAt_asym [of key a b] by (auto simp: compareProducts_def greaterAt_def)

lemma arraySort_collection_ascending:
  "sorted_wrt (\<lambda>a b. \<not> lessAt key b a) (arraySort (compareCollectionProducts key) xs)"
proof -
  have "sorted_wrt (\<lambda>a b. compareCollectionProducts key a b \<le> 0)
          (arraySort (compareCollectionProducts key) xs)"
  proof (rule sorted_arraySort)
    fix a b assume "0 < compareCollectionProducts key a b"
    then have "lessAt key b a" by (simp add: compareCollectionProducts_le not_le [symmetric])
    then have "\<not> lessAt key a b" by (rule lessAt_asym)
    then show "compareCollectionProducts key b a \<le> 0" by (simp add: compareCollectionProducts_le)
  next
    fix a b c
    assume "compareCollectionProducts key a b \<le> 0" "compareCollectionProducts key b c \<le> 0"
    then show "compareCollectionProducts key a c \<le> 0"
      using lessAt_negtrans [of key b a c] by (simp add: compareCollectionProducts_le)
  qed
  then show ?thesis by (simp add: compareCollectionProducts_le)
qed

lemma arraySort_products_ordered:
  "sorted_wrt (\<lambda>a b. if truthyFlag reverse then \<not> lessAt key a b else \<not> lessAt key b a)
     (arraySort (compareProducts reverse key) xs)"
proof -
  have "sorted_wrt (\<lambda>a b. compareProducts reverse key a b \<le> 0)
          (arraySort (compareProducts reverse key) xs)"
  proof (rule sorted_arraySort)
    fix a b assume "0 < compareProducts reverse key a b"
    then have "\<not> compareProducts reverse key a b \<le> 0" by simp
    then show "compareProducts reverse key b a \<le> 0"
      using lessAt_asym [of key a b] lessAt_asym [of key b a]
      by (auto simp: compareProducts_le split: if_splits)
  next
    fix a b c
    assume "compareProducts reverse key a b \<le> 0" "compareProducts reverse key b c \<le> 0"
    then show "compareProducts reverse key a c \<le> 0"
      using lessAt_negtrans [of key b a c] lessAt_negtrans [of key b c a]
      by (auto simp: compareProducts_le split: if_splits)
  qed
  then show ?thesis by (simp add: compareProducts_le)
qed


lemma getCollectionProducts_ascending:
  assumes "k \<noteq> []" and "isValidProductKey k"
  shows "sorted_wrt (\<lambda>a b. \<not> lessAt k b a)
           (getCollectionProducts now collection reverse (Some k))"
  using assms
  by (simp add: getCollectionProducts_def sortCollectionProducts_def truthyString_def
      arraySort_collection_ascending)

lemma getProducts_ordered:
  assumes "k \<noteq> []" and "isKeyOfProduct k"
  shows "sorted_wrt (\<lambda>a b. if truthyFlag reverse then \<not> lessAt k a b else \<not> lessAt k b a)
           (getProducts now query reverse (Some k))"
  using assms
  by (simp add: getProducts_def sortProducts_def truthyString_def arraySort_products_ordered)

section \<open>Sorting and \<open>reverse\<close>\<close>

text \<open>
  C7.  Both \<open>getProducts\<close> and \<open>getCollectionProducts\<close> are claimed to sort descending by
  the key when \<open>reverse\<close> is true.  The comparator of \<open>getProducts\<close> does
  (\<open>getProducts_ordered\<close>); \<open>getCollectionProducts\<close> reverses the array and then sorts it
  ascending whatever \<open>reverse\<close> is (\<open>getCollectionProducts_ascending\<close>).  With
  \<open>reverse: true\<close> and \<open>sortKey: "handle"\<close> its products come back in ascending order of
  their handles, where the sort of \<open>getProducts\<close> puts the same products in descending order.
\<close>

theorem getCollectionProducts_reverse_ascending:
  "map p_handle (getCollectionProducts (\<lambda>i. ''2024-05-01T00:00:00.000Z'') ''All''
                   (Some True) (Some ''handle''))
     = [''acme-cup'', ''acme-drawstring-bag'', ''acme-drawstring-bag'', ''classic-t-shirt'']
   \<and> map p_handle (sortProducts (Some True) (Some ''handle'')
                     (collectionStaticProducts (\<lambda>i. ''2024-05-01T00:00:00.000Z'')))
     = [''classic-t-shirt'', ''acme-drawstring-bag'', ''acme-drawstring-bag'', ''acme-cup'']"
  by code_simp

section \<open>Products of a collection\<close>

lemma length_insertSorted: "length (insertSorted cmp x ys) = Suc (length ys)"
  by (induction ys) simp_all

lemma length_arraySort: "length (arraySort cmp xs) = length xs"
  by (induction xs) (simp_all add: arraySort_def length_insertSorted)

lemma length_sortCollectionProducts: "length (sortCollectionProducts sortKey xs) = length xs"
  by (simp add: sortCollectionProducts_def length_arraySort split: option.splits)

lemma set_sortCollectionProducts: "set (sortCollectionProducts sortKey xs) = set xs"
  by (simp add: sortCollectionProducts_def set_arraySort split: option.splits)

text \<open>
  C6 as stated: for a handle that matches no collection data, \<open>getCollectionProducts\<close>
  returns the empty sequence.  For the handle \<open>no-such-collection\<close> it returns the four
  static products.
\<close>

theorem getCollectionProducts_unknown_counterexample:
  "map p_handle (getCollectionProducts (\<lambda>i. ''2024-05-01T00:00:00.000Z'')
                   ''no-such-collection'' None None)
     = [''classic-t-shirt'', ''acme-cup'', ''acme-drawstring-bag'', ''acme-drawstring-bag'']"
  by (simp add: getCollectionProducts_def sortCollectionProducts_def truthyFlag_def
      collectionStaticProducts_def collectionProduct_def)

text \<open>
  C6, amended: for every collection handle, also one that matches no collection data,
  \<open>getCollectionProducts\<close> returns the same four static products, in an order that only
  \<open>reverse\<close> and \<open>sortKey\<close> determine; it is never an error and never empty.
\<close>

theorem getCollectionProducts_ignores_collection:
  "length (getCollectionProducts now collection reverse sortKey) = 4
   \<and> set (getCollectionProducts now collection reverse sortKey)
       = set (collectionStaticProducts now)
   \<and> getCollectionProducts now collection reverse sortKey
       = getCollectionProducts now other reverse sortKey"
proof -
  have "length (collectionStaticProducts now) = 4"
    by (simp add: collectionStaticProducts_def)
  then have "length (getCollectionProducts now collection reverse sortKey) = 4"
    by (simp add: getCollectionProducts_def length_sortCollectionProducts)
  moreover have "set (getCollectionProducts now collection reverse sortKey)
       = set (collectionStaticProducts now)"
    by (simp add: getCollectionProducts_def set_sortCollectionProducts)
  moreover have "getCollectionProducts now collection reverse sortKey
       = getCollectionProducts now other reverse sortKey"
    by (simp add: getCollectionProducts_def)
  ultimately show ?thesis by simp
qed

theorem getCollectionProducts_ignores_collection_witness:
  "length (getCollectionProducts (\<lambda>i. ''2024-05-01T00:00:00.000Z'') ''no-such-collection''
             (Some True) (Some ''title'')) = 4"
  using getCollectionProducts_ignores_collection
    [where now = "\<lambda>i. ''2024-05-01T00:00:00.000Z''" and collection = "''no-such-collection''"
       and reverse = "Some True" and sortKey = "Some ''title''"]
  by simp

section \<open>Stability of the sort\<close>

lemma lessAt_differs: "lessAt key a b \<Longrightarrow> sortValue key a \<noteq> sortValue key b"
  by (auto simp: lessAt_def sortValue_def strLess_irrefl split: option.splits ProductField.splits)

lemma compareProducts_pos_differs:
  "0 < compareProducts reverse key a b \<Longrightarrow> sortValue key a \<noteq> sortValue key b"
  using lessAt_differs [of key a b] lessAt_differs [of key b a]
  by (auto simp: compareProducts_def greaterAt_def split: if_splits)

lemma compareCollectionProducts_pos_differs:
  "0 < compareCollectionProducts key a b \<Longrightarrow> sortValue key a \<noteq> sortValue key b"
  using lessAt_differs [of key a b] lessAt_differs [of key b a]
  by (auto simp: compareCollectionProducts_def greaterAt_def split: if_splits)

lemma filter_insertSorted_in:
  assumes "\<And>y. 0 < cmp x y \<Longrightarrow> \<not> P y" and "P x"
  shows "filter P (insertSorted cmp x ys) = x # filter P ys"
  using assms by (induction ys) auto

lemma filter_insertSorted_out:
  "\<not> P x \<Longrightarrow> filter P (insertSorted cmp x ys) = filter P ys"
  by (induction ys) auto

lemma filter_arraySort:
  assumes "\<And>x y. 0 < cmp x y \<Longrightarrow> f x \<noteq> f y"
  shows "filter (\<lambda>p. f p = v) (arraySort cmp xs) = filter (\<lambda>p. f p = v) xs"
proof (induction xs)
  case Nil
  show ?case by (simp add: arraySort_def)
next
  case (Cons x xs)
  have step: "arraySort cmp (x # xs) = insertSorted cmp x (arraySort cmp xs)"
    by (simp add: arraySort_def)
  show ?case
  proof (cases "f x = v")
    case True
    have "filter (\<lambda>p. f p = v) (insertSorted cmp x (arraySort cmp xs))
          = x # filter (\<lambda>p. f p = v) (arraySort cmp xs)"
    proof (rule filter_insertSorted_in)
      fix y assume "0 < cmp x y"
      then have "f x \<noteq> f y" by (rule assms)
      with True show "f y \<noteq> v" by simp
    next
      show "f x = v" by (rule True)
    qed
    with Cons True step show ?thesis by simp
  next
    case False
    then have "filter (\<lambda>p. f p = v) (insertSorted cmp x (arraySort cmp xs))
          = filter (\<lambda>p. f p = v) (arraySort cmp xs)"
      by (rule filter_insertSorted_out)
    with Cons False step show ?thesis by simp
  qed
qed


lemma insertSorted_map:
  "map g (insertSorted (\<lambda>a b. cmp (g a) (g b)) x ys) = insertSorted cmp (g x) (map g ys)"
  by (induction ys) simp_all

lemma arraySort_map:
  "map g (arraySort (\<lambda>a b. cmp (g a) (g b)) xs) = arraySort cmp (map g xs)"
  by (induction xs) (simp_all add: arraySort_def insertSorted_map)

lemma arraySort_positions:
  assumes "\<And>x y. 0 < cmp x y \<Longrightarrow> f x \<noteq> f y"
  shows "map snd (arraySort (\<lambda>a b. cmp (snd a) (snd b)) (zip [0..<length xs] xs))
           = arraySort cmp xs"
    and "filter (\<lambda>a. f (snd a) = v)
           (arraySort (\<lambda>a b. cmp (snd a) (snd b)) (zip [0..<length xs] xs))
           = filter (\<lambda>a. f (snd a) = v) (zip [0..<length xs] xs)"
proof -
  have "map snd (zip [0..<length xs] xs) = xs" by (simp add: map_snd_zip)
  then show "map snd (arraySort (\<lambda>a b. cmp (snd a) (snd b)) (zip [0..<length xs] xs))
           = arraySort cmp xs"
    by (simp add: arraySort_map)
next
  show "filter (\<lambda>a. f (snd a) = v)
           (arraySort (\<lambda>a b. cmp (snd a) (snd b)) (zip [0..<length xs] xs))
           = filter (\<lambda>a. f (snd a) = v) (zip [0..<length xs] xs)"
    by (rule filter_arraySort) (rule assms)
qed

text \<open>
  With every product tagged by its position in the input: sorting the tagged list sorts
  the products, and the positions of the products with one value at the key come out in
  increasing order, as in \<open>zip [0..<length xs] xs\<close>.
\<close>

lemma sortProducts_positions:
  "filter (\<lambda>a. sortValue key (snd a) = v)
     (arraySort (\<lambda>a b. compareProducts reverse key (snd a) (snd b)) (zip [0..<length xs] xs))
   = filter (\<lambda>a. sortValue key (snd a) = v) (zip [0..<length xs] xs)"
  by (rule arraySort_positions(2) [where f = "sortValue key"])
    (rule compareProducts_pos_differs)

lemma sortCollectionProducts_positions:
  "filter (\<lambda>a. sortValue key (snd a) = v)
     (arraySort (\<lambda>a b. compareCollectionProducts key (snd a) (snd b)) (zip [0..<length xs] xs))
   = filter (\<lambda>a. sortValue key (snd a) = v) (zip [0..<length xs] xs)"
  by (rule arraySort_positions(2) [where f = "sortValue key"])
    (rule compareCollectionProducts_pos_differs)

text \<open>
  The sort step of \<open>getProducts\<close> and the sort step of \<open>getCollectionProducts\<close> are
  stable: for every list of products handed to the sort, every key and every value \<open>v\<close>,
  the products whose value at the key is \<open>v\<close> stand in the sorted list in the order they
  had in the list handed to the sort, whatever \<open>reverse\<close> is.
\<close>

lemma sort_step_stable:
  "filter (\<lambda>p. sortValue key p = v) (sortProducts reverse (Some key) products)
     = filter (\<lambda>p. sortValue key p = v) products
   \<and> filter (\<lambda>p. sortValue key p = v) (sortCollectionProducts (Some key) products)
     = filter (\<lambda>p. sortValue key p = v) products"
proof -
  have "filter (\<lambda>p. sortValue key p = v) (arraySort (compareProducts reverse key) products)
        = filter (\<lambda>p. sortValue key p = v) products"
    by (rule filter_arraySort) (rule compareProducts_pos_differs)
  moreover
  have "filter (\<lambda>p. sortValue key p = v) (arraySort (compareCollectionProducts key) products)
        = filter (\<lambda>p. sortValue key p = v) products"
    by (rule filter_arraySort) (rule compareCollectionProducts_pos_differs)
  ultimately show ?thesis
    by (simp add: sortProducts_def sortCollectionProducts_def)
qed

text \<open>
  C9.  The sorting of \<open>getProducts\<close> and of \<open>getCollectionProducts\<close> is claimed to leave
  products with equal values at the key in the order they had before, for \<open>reverse\<close> false
  and true.  The sort steps do (\<open>sort_step_stable\<close>), but \<open>getCollectionProducts\<close>
  reverses its list before it sorts.  With \<open>reverse: true\<close> and \<open>sortKey: "id"\<close> all four
  static products have the value \<open>001\<close> at the key, and they come back in the reverse of
  their order in the list, where the sort of \<open>getProducts\<close> with \<open>reverse: true\<close> leaves the
  same list in its order.
\<close>

theorem getCollectionProducts_reverse_ties:
  "map (sortValue ''id'') (collectionStaticProducts (\<lambda>i. ''2024-05-01T00:00:00.000Z''))
     = [JSString ''001'', JSString ''001'', JSString ''001'', JSString ''001'']
   \<and> map p_handle (collectionStaticProducts (\<lambda>i. ''2024-05-01T00:00:00.000Z''))
     = [''classic-t-shirt'', ''acme-cup'', ''acme-drawstring-bag'', ''acme-drawstring-bag'']
   \<and> map p_handle (getCollectionProducts (\<lambda>i. ''2024-05-01T00:00:00.000Z'') ''All''
                     (Some True) (Some ''id''))
     = [''acme-drawstring-bag'', ''acme-drawstring-bag'', ''acme-cup'', ''classic-t-shirt'']
   \<and> map p_handle (sortProducts (Some True) (Some ''id'')
                     (collectionStaticProducts (\<lambda>i. ''2024-05-01T00:00:00.000Z'')))
     = [''classic-t-shirt'', ''acme-cup'', ''acme-drawstring-bag'', ''acme-drawstring-bag'']"
  by code_simp

section \<open>The revalidation webhook\<close>

text \<open>
  C8 as stated: a request with the topic \<open>products/update\<close> and the correct secret
  invalidates the \<open>products\<close> tag and answers \<open>revalidated: true\<close>.  When the configured
  secret is the empty string and the request carries \<open>secret=\<close>, the two are equal, and the
  request is turned away by \<open>!secret\<close>: nothing is invalidated and \<open>revalidated\<close> is absent.
\<close>

theorem revalidate_empty_secret_counterexample:
  "revalidate (Some []) (Some ''products/update'') (Some []) 1714521600000
     = \<lparr>response = \<lparr>httpStatus = 200,
                     body = \<lparr>rb_status = 200, rb_revalidated = None, rb_now = None\<rparr>\<rparr>,
        revalidatedTags = [],
        consoleErrors = [''Invalid revalidation secret.'']\<rparr>"
  by (simp add: revalidate_def truthyString_def json_def)

text \<open>
  C8, amended: a request with the topic \<open>products/update\<close> and a non-empty secret equal to
  the configured one invalidates the \<open>products\<close> tag, and no other, and answers status 200
  with \<open>revalidated: true\<close>; the same request with a wrong, missing or empty secret answers
  status 200 without \<open>revalidated\<close> and invalidates nothing.
\<close>

theorem revalidate_products_update:
  "(s \<noteq> [] \<longrightarrow>
      revalidate (Some s) (Some ''products/update'') (Some s) t
        = \<lparr>response = \<lparr>httpStatus = 200,
                        body = \<lparr>rb_status = 200, rb_revalidated = Some True,
                                rb_now = Some t\<rparr>\<rparr>,
           revalidatedTags = [TAGS_products], consoleErrors = []\<rparr>)
   \<and> (secret = None \<or> secret = Some [] \<or> secret \<noteq> envSecret \<longrightarrow>
      revalidate envSecret (Some ''products/update'') secret t
        = \<lparr>response = \<lparr>httpStatus = 200,
                        body = \<lparr>rb_status = 200, rb_revalidated = None, rb_now = None\<rparr>\<rparr>,
           revalidatedTags = [], consoleErrors = [''Invalid revalidation secret.'']\<rparr>)"
  by (auto simp: revalidate_def truthyString_def json_def)

theorem revalidate_products_update_witness:
  "''s3cret'' \<noteq> []
   \<and> revalidatedTags (revalidate (Some ''s3cret'') (Some ''products/update'')
                        (Some ''s3cret'') 1714521600000) = [''products'']
   \<and> rb_revalidated (body (response (revalidate (Some ''s3cret'') (Some ''products/update'')
                        (Some ''s3cret'') 1714521600000))) = Some True
   \<and> Some ''wrong'' \<noteq> Some ''s3cret''
   \<and> revalidatedTags (revalidate (Some ''s3cret'') (Some ''products/update'')
                        (Some ''wrong'') 1714521600000) = []
   \<and> rb_revalidated (body (response (revalidate (Some ''s3cret'') (Some ''products/update'')
                        (Some ''wrong'') 1714521600000))) = None"
  using revalidate_products_update [where s = "''s3cret''" and t = 1714521600000
      and secret = "Some ''wrong''" and envSecret = "Some ''s3cret''"]
  by (simp add: TAGS_products_def)

end
